theory Spec2Isabelle
  imports Complex_Main
begin

section \<open>Batch image-generation orchestrator: \<open>modules/processing_ex.py\<close>\<close>

text \<open>
  A shallow embedding of the parts of \<open>processing_ex.py\<close> that decide the properties
  below.  Python exceptions are values of \<open>error\<close>; a function that may raise returns
  \<open>error + 'a\<close> with \<open>Inl\<close> for the exception.  Calls into PIL, torch and the other
  modules of the web UI are parameters of the definitions that use them.
\<close>

datatype error =
    IndexError
  | KeyError
  | TypeError
  | AssertionError
  | RuntimeError
  | Raised string

subsection \<open>Python list indexing and slicing\<close>

text \<open>\<open>xs[i]\<close>: a negative index counts from the end, an index out of range raises.\<close>

definition py_index :: "'a list \<Rightarrow> int \<Rightarrow> error + 'a" where
  "py_index xs i =
     (if 0 \<le> i \<and> i < int (length xs) then Inr (xs ! nat i)
      else if i < 0 \<and> - int (length xs) \<le> i then Inr (xs ! nat (int (length xs) + i))
      else Inl IndexError)"

text \<open>\<open>xs[a:b]\<close>: negative bounds count from the end, all bounds are clamped to the list.\<close>

definition py_bound :: "nat \<Rightarrow> int \<Rightarrow> nat" where
  "py_bound n i = (if i < 0 then nat (max (int n + i) 0) else min (nat i) n)"

definition py_slice :: "'a list \<Rightarrow> int \<Rightarrow> int \<Rightarrow> 'a list" where
  "py_slice xs a b =
     (let lo = py_bound (length xs) a; hi = py_bound (length xs) b
      in take (hi - lo) (drop lo xs))"

subsection \<open>\<open>apply_overlay\<close> (lines 64-81)\<close>

text \<open>
  The PIL operations the function calls.  \<open>new_rgba ov\<close> is
  \<open>Image.new('RGBA', (ov.width, ov.height))\<close>; \<open>paste base img (x, y)\<close> and
  \<open>alpha_composite img ov\<close> return the image they mutate.
\<close>

record ('img, 'ov) pil =
  new_rgba :: "'ov \<Rightarrow> 'img"
  resize_image :: "int \<Rightarrow> 'img \<Rightarrow> int \<Rightarrow> int \<Rightarrow> 'img"
  paste :: "'img \<Rightarrow> 'img \<Rightarrow> int \<times> int \<Rightarrow> 'img"
  convert :: "string \<Rightarrow> 'img \<Rightarrow> 'img"
  alpha_composite :: "'img \<Rightarrow> 'ov \<Rightarrow> 'img"

definition apply_overlay ::
  "('img, 'ov) pil \<Rightarrow> 'img \<Rightarrow> (int \<times> int \<times> int \<times> int) option \<Rightarrow> int \<Rightarrow>
     'ov list option \<Rightarrow> error + 'img" where
  "apply_overlay P img paste_loc index overlays =
     (case overlays of
        None \<Rightarrow> Inr img
      | Some ovs \<Rightarrow>
          if index \<ge> int (length ovs) then Inr img
          else
            (case py_index ovs index of
               Inl e \<Rightarrow> Inl e
             | Inr overlay \<Rightarrow>
                 (let image1 =
                        (case paste_loc of
                           None \<Rightarrow> img
                         | Some (x, y, w, h) \<Rightarrow>
                             paste P (new_rgba P overlay) (resize_image P 1 img w h) (x, y));
                      image2 = convert P ''RGBA'' image1;
                      image3 = alpha_composite P image2 overlay
                  in Inr (convert P ''RGB'' image3))))"

subsection \<open>Mask normalisation in \<open>StableDiffusionProcessingImg2ImgEx.__init__\<close> (lines 624-661)\<close>

text \<open>
  The constructor's arguments \<open>init_images\<close> and \<open>masks\<close> default to \<open>None\<close>.
  Line 630 reads \<open>masks[0]\<close> when \<open>masks\<close> is not \<open>None\<close>, line 657 takes
  \<open>len(self.init_images)\<close>.  The fields kept are \<open>batch_size\<close> and \<open>image_masks\<close>.
\<close>

record 'm img2img_ex =
  batch_size_ex :: nat
  image_masks :: "'m list option"

definition img2img_ex_init :: "'i list option \<Rightarrow> 'm list option \<Rightarrow> error + 'm img2img_ex" where
  "img2img_ex_init init_images masks =
     (case (case masks of None \<Rightarrow> Inr None
                        | Some ms \<Rightarrow> (case py_index ms 0 of Inl e \<Rightarrow> Inl e | Inr m \<Rightarrow> Inr (Some m))) of
        Inl e \<Rightarrow> Inl e
      | Inr first_mask \<Rightarrow>
          (case init_images of
             None \<Rightarrow> Inl TypeError
           | Some imgs \<Rightarrow>
               (let batch_size = length imgs in
                 (case masks of
                    None \<Rightarrow> Inr \<lparr>batch_size_ex = batch_size, image_masks = None\<rparr>
                  | Some ms \<Rightarrow>
                      if length ms > 0 then
                        (let ms1 = (if length ms < length imgs
                                    then ms @ replicate (batch_size - length ms) (last ms)
                                    else ms)
                         in Inr \<lparr>batch_size_ex = batch_size,
                                 image_masks = Some (py_slice ms1 0 (int batch_size))\<rparr>)
                      else Inr \<lparr>batch_size_ex = batch_size, image_masks = Some ms\<rparr>))))"

subsection \<open>Prompts and seeds of a run (lines 278-282 and 361-394)\<close>

text \<open>
  A seed of the request is \<open>None\<close>, the empty string, an integer or a list of integers.
  \<open>get_fixed_seed\<close> replaces \<open>None\<close>, \<open>''\<close> and \<open>-1\<close> by
  \<open>random.randrange(4294967294)\<close>; \<open>rnd\<close> is the number drawn.
\<close>

datatype seed_arg = SeedNone | SeedEmpty | SeedInt int | SeedList "int list"

definition get_fixed_seed :: "int \<Rightarrow> seed_arg \<Rightarrow> seed_arg" where
  "get_fixed_seed rnd seed =
     (if seed = SeedNone \<or> seed = SeedEmpty \<or> seed = SeedInt (- 1) then SeedInt rnd else seed)"

datatype prompt_arg = PromptNone | PromptStr string | PromptList "string list"

record request =
  prompt :: prompt_arg
  negative_prompt :: prompt_arg
  seed :: seed_arg
  subseed :: seed_arg
  subseed_strength :: real
  batch_size :: int
  n_iter :: int
  styles :: "string list"

record prepared =
  all_prompts :: "string list"
  all_negative_prompts :: "string list"
  all_seeds :: "int list"
  all_subseeds :: "int list"

text \<open>
  \<open>[int(seed) + f(x) for x in range(n)]\<close> for a seed that is not a list: \<open>int\<close> is
  applied once per element, so only a non-empty range can raise.
\<close>

definition seed_range :: "seed_arg \<Rightarrow> (nat \<Rightarrow> int) \<Rightarrow> nat \<Rightarrow> error + int list" where
  "seed_range sd f n =
     (case sd of
        SeedInt s \<Rightarrow> Inr (map (\<lambda>x. s + f x) [0..<n])
      | SeedNone \<Rightarrow> if n = 0 then Inr [] else Inl TypeError
      | SeedEmpty \<Rightarrow> if n = 0 then Inr [] else Inl (Raised ''ValueError'')
      | SeedList l \<Rightarrow> if n = 0 then Inr [] else Inl TypeError)"

text \<open>
  Lines 361-394.  \<open>apply_styles\<close> and \<open>apply_negative_styles\<close> are the two methods of
  \<open>shared.prompt_styles\<close>; \<open>rnd1\<close> and \<open>rnd2\<close> are the numbers the two calls of
  \<open>get_fixed_seed\<close> would draw.  A scalar prompt is repeated
  \<open>batch_size * n_iter\<close> times (no times when the product is negative).
\<close>

definition prompt_text :: "prompt_arg \<Rightarrow> string option" where
  "prompt_text a = (case a of PromptStr t \<Rightarrow> Some t | _ \<Rightarrow> None)"

definition prepare_run ::
  "(string \<Rightarrow> string list \<Rightarrow> string) \<Rightarrow> (string option \<Rightarrow> string list \<Rightarrow> string) \<Rightarrow>
     int \<Rightarrow> int \<Rightarrow> request \<Rightarrow> error + prepared" where
  "prepare_run apply_styles apply_negative_styles rnd1 rnd2 p =
     (if (case prompt p of PromptList xs \<Rightarrow> \<not> length xs > 0 | PromptNone \<Rightarrow> True | PromptStr t \<Rightarrow> False)
      then Inl AssertionError
      else
        (let seed1 = get_fixed_seed rnd1 (seed p);
             subseed1 = get_fixed_seed rnd2 (subseed p);
             prompts =
               (case prompt p of
                  PromptList xs \<Rightarrow> map (\<lambda>x. apply_styles x (styles p)) xs
                | PromptStr t \<Rightarrow> replicate (nat (batch_size p * n_iter p)) (apply_styles t (styles p))
                | PromptNone \<Rightarrow> []);
             negative_prompts =
               (case negative_prompt p of
                  PromptList xs \<Rightarrow> map (\<lambda>x. apply_negative_styles (Some x) (styles p)) xs
                | other \<Rightarrow> replicate (nat (batch_size p * n_iter p))
                             (apply_negative_styles (prompt_text other) (styles p)))
         in
           (case (case seed1 of
                    SeedList l \<Rightarrow> Inr l
                  | other \<Rightarrow>
                      seed_range other (\<lambda>x. if subseed_strength p = 0 then int x else 0)
                        (length prompts)) of
              Inl e \<Rightarrow> Inl e
            | Inr seeds \<Rightarrow>
                (case (case subseed1 of
                         SeedList l \<Rightarrow> Inr l
                       | other \<Rightarrow> seed_range other int (length prompts)) of
                   Inl e \<Rightarrow> Inl e
                 | Inr subseeds \<Rightarrow>
                     Inr \<lparr>all_prompts = prompts, all_negative_prompts = negative_prompts,
                          all_seeds = seeds, all_subseeds = subseeds\<rparr>))))"

subsection \<open>\<open>get_conds_with_caching\<close> (lines 408-429)\<close>

text \<open>
  A cache is the two-element list of the source: element 0 is the key of the last
  computation (\<open>None\<close> before the first one), element 1 its result.  The conditioning
  function is called with \<open>shared.sd_model\<close>, the prompts and the step count; it may read
  and change the state \<open>'w\<close> of the model.  The natural number passed along with that
  state counts the calls of the conditioning function.
\<close>

record 'r cond_cache =
  cache_key :: "(string list \<times> int) option"
  cache_value :: 'r

definition get_conds_with_caching ::
  "(string list \<Rightarrow> int \<Rightarrow> 'w \<Rightarrow> 'r \<times> 'w) \<Rightarrow> string list \<Rightarrow> int \<Rightarrow> 'r cond_cache \<Rightarrow>
     'w \<times> nat \<Rightarrow> 'r \<times> 'r cond_cache \<times> 'w \<times> nat" where
  "get_conds_with_caching function required_prompts steps cache st =
     (if cache_key cache \<noteq> None \<and> Some (required_prompts, steps) = cache_key cache
      then (cache_value cache, cache, st)
      else
        (case function required_prompts steps (fst st) of
           (res, w) \<Rightarrow>
             (res, \<lparr>cache_key = Some (required_prompts, steps), cache_value = res\<rparr>,
              w, Suc (snd st))))"

subsection \<open>\<open>process_images\<close> (lines 326-355)\<close>

text \<open>
  The global state the function works on: \<open>opts.data\<close>, a dictionary from option names
  to values, and the loaded weights (checkpoint and VAE), which only the two reload
  functions change.  \<open>setattr(opts, k, v)\<close> stores \<open>v\<close> under \<open>k\<close> in \<open>opts.data\<close>.
\<close>

record ('v, 'm) globals =
  opts_data :: "string \<rightharpoonup> 'v"
  weights :: 'm

text \<open>
  The two fields of the request that \<open>process_images\<close> reads.  \<open>override_settings\<close> is
  a dictionary; its items are kept in insertion order.
\<close>

record 'v overrides =
  override_settings :: "(string \<times> 'v) list"
  override_settings_restore_afterwards :: bool

text \<open>
  The collaborators: \<open>checkpoint_known x\<close> says that
  \<open>sd_models.checkpoint_alisases.get(x)\<close> is not \<open>None\<close>.  The reload functions read the
  options and leave new weights; they may raise (\<open>Some\<close> of the exception).  \<open>inner\<close> is
  \<open>process_images_inner\<close>: it returns a result or raises, and it hands the request to the
  scripts, so that the request and the global state may both come back changed.
\<close>

record ('v, 'm, 'res) collaborators =
  checkpoint_known :: "'v option \<Rightarrow> bool"
  reload_model_weights :: "(string \<rightharpoonup> 'v) \<Rightarrow> 'm \<Rightarrow> error option \<times> 'm"
  reload_vae_weights :: "(string \<rightharpoonup> 'v) \<Rightarrow> 'm \<Rightarrow> error option \<times> 'm"
  inner :: "'v overrides \<Rightarrow> ('v, 'm) globals \<Rightarrow> (error + 'res) \<times> 'v overrides \<times> ('v, 'm) globals"

definition set_opt :: "string \<Rightarrow> 'v \<Rightarrow> ('v, 'm) globals \<Rightarrow> ('v, 'm) globals" where
  "set_opt k v g = g\<lparr>opts_data := (opts_data g)(k \<mapsto> v)\<rparr>"

definition reload_model ::
  "('v, 'm, 'res) collaborators \<Rightarrow> ('v, 'm) globals \<Rightarrow> error option \<times> ('v, 'm) globals" where
  "reload_model C g =
     (case reload_model_weights C (opts_data g) (weights g) of (e, w) \<Rightarrow> (e, g\<lparr>weights := w\<rparr>))"

definition reload_vae ::
  "('v, 'm, 'res) collaborators \<Rightarrow> ('v, 'm) globals \<Rightarrow> error option \<times> ('v, 'm) globals" where
  "reload_vae C g =
     (case reload_vae_weights C (opts_data g) (weights g) of (e, w) \<Rightarrow> (e, g\<lparr>weights := w\<rparr>))"

text \<open>Line 327: \<open>{k: opts.data[k] for k in p.override_settings.keys()}\<close>.\<close>

fun stored_opts :: "(string \<rightharpoonup> 'v) \<Rightarrow> string list \<Rightarrow> error + (string \<times> 'v) list" where
  "stored_opts d [] = Inr []"
| "stored_opts d (k # ks) =
     (case d k of
        None \<Rightarrow> Inl KeyError
      | Some v \<Rightarrow> (case stored_opts d ks of Inl e \<Rightarrow> Inl e | Inr kvs \<Rightarrow> Inr ((k, v) # kvs)))"

text \<open>
  Lines 335-342: the loop that applies the overrides.  It stops at the first reload that
  raises, with the state reached.
\<close>

fun apply_overrides ::
  "('v, 'm, 'res) collaborators \<Rightarrow> (string \<times> 'v) list \<Rightarrow> ('v, 'm) globals \<Rightarrow>
     error option \<times> ('v, 'm) globals" where
  "apply_overrides C [] g = (None, g)"
| "apply_overrides C ((k, v) # kvs) g =
     (case (if k = ''sd_model_checkpoint'' then reload_model C (set_opt k v g)
            else (None, set_opt k v g)) of
        (Some e, g1) \<Rightarrow> (Some e, g1)
      | (None, g1) \<Rightarrow>
          (case (if k = ''sd_vae'' then reload_vae C g1 else (None, g1)) of
             (Some e, g2) \<Rightarrow> (Some e, g2)
           | (None, g2) \<Rightarrow> apply_overrides C kvs g2))"

text \<open>
  Lines 349-353: the loop that writes the stored values back.  It stops when
  \<open>reload_vae_weights\<close> raises.
\<close>

fun restore_opts ::
  "('v, 'm, 'res) collaborators \<Rightarrow> (string \<times> 'v) list \<Rightarrow> ('v, 'm) globals \<Rightarrow>
     error option \<times> ('v, 'm) globals" where
  "restore_opts C [] g = (None, g)"
| "restore_opts C ((k, v) # kvs) g =
     (case (if k = ''sd_vae'' then reload_vae C (set_opt k v g) else (None, set_opt k v g)) of
        (Some e, g1) \<Rightarrow> (Some e, g1)
      | (None, g1) \<Rightarrow> restore_opts C kvs g1)"

text \<open>
  Lines 330-344, the \<open>try\<close> block: the result or the exception that leaves it, the
  request and the global state at that moment.
\<close>

definition try_block ::
  "('v, 'm, 'res) collaborators \<Rightarrow> 'v overrides \<Rightarrow> ('v, 'm) globals \<Rightarrow>
     (error + 'res) \<times> 'v overrides \<times> ('v, 'm) globals" where
  "try_block C p g =
     (let unknown =
            \<not> checkpoint_known C (map_of (override_settings p) ''sd_model_checkpoint'');
          p1 = (if unknown
                then p\<lparr>override_settings :=
                         filter (\<lambda>kv. fst kv \<noteq> ''sd_model_checkpoint'') (override_settings p)\<rparr>
                else p)
      in case (if unknown then reload_model C g else (None, g)) of
           (Some e, g1) \<Rightarrow> (Inl e, p1, g1)
         | (None, g1) \<Rightarrow>
             (case apply_overrides C (override_settings p1) g1 of
                (Some e, g2) \<Rightarrow> (Inl e, p1, g2)
              | (None, g2) \<Rightarrow> inner C p1 g2))"

text \<open>
  The whole function: what it returns or raises, the request and the global state when
  it ends.  A \<open>KeyError\<close> of line 327 is raised before the \<open>try\<close>.  The \<open>finally\<close> block
  runs however the \<open>try\<close> block ended and reads the flag of the request as it is then; an
  exception raised in it replaces the outcome of the \<open>try\<close> block.
\<close>

definition process_images ::
  "('v, 'm, 'res) collaborators \<Rightarrow> 'v overrides \<Rightarrow> ('v, 'm) globals \<Rightarrow>
     (error + 'res) \<times> 'v overrides \<times> ('v, 'm) globals" where
  "process_images C p g =
     (case stored_opts (opts_data g) (map fst (override_settings p)) of
        Inl e \<Rightarrow> (Inl e, p, g)
      | Inr stored \<Rightarrow>
          (case try_block C p g of
             (res, p1, g1) \<Rightarrow>
               if override_settings_restore_afterwards p1 then
                 (case restore_opts C stored g1 of
                    (Some e, g2) \<Rightarrow> (Inl e, p1, g2)
                  | (None, g2) \<Rightarrow> (res, p1, g2))
               else (res, p1, g1)))"

text \<open>
  The exception raised inside the \<open>finally\<close> block of a call, \<open>None\<close> when the block
  raises nothing (or line 327 raised before the \<open>try\<close>).
\<close>

definition finally_error ::
  "('v, 'm, 'res) collaborators \<Rightarrow> 'v overrides \<Rightarrow> ('v, 'm) globals \<Rightarrow> error option" where
  "finally_error C p g =
     (case stored_opts (opts_data g) (map fst (override_settings p)) of
        Inl e \<Rightarrow> None
      | Inr stored \<Rightarrow>
          (case try_block C p g of
             (res, p1, g1) \<Rightarrow>
               if override_settings_restore_afterwards p1 then fst (restore_opts C stored g1)
               else None))"

subsection \<open>Tensors\<close>

text \<open>
  A latent or noise tensor of shape \<open>[C, H, W]\<close> is a list of channels, each a list of
  rows; a batch \<open>[B, C, H, W]\<close> is a list of tensors (\<open>torch.stack\<close>).  Entries are
  real numbers here: the noise tensors are finite, and the rounding of the
  floating-point types is not modelled.  \<open>+\<close> and \<open>*\<close> of two tensors of one shape act
  entry by entry.
\<close>

type_synonym tensor = "real list list list"

type_synonym batch = "tensor list"

definition t_add :: "tensor \<Rightarrow> tensor \<Rightarrow> tensor" where
  "t_add = map2 (map2 (map2 (+)))"

definition t_mul :: "tensor \<Rightarrow> tensor \<Rightarrow> tensor" where
  "t_mul = map2 (map2 (map2 (*)))"

definition t_scale :: "tensor \<Rightarrow> real \<Rightarrow> tensor" where
  "t_scale x v = map (map (map (\<lambda>e. e * v))) x"

subsection \<open>\<open>slerp\<close> (lines 194-205)\<close>

text \<open>
  The arguments are tensors \<open>[C, H, W]\<close>, as \<open>create_random_tensors\<close> passes them;
  dimension 1 is the list of rows of a channel.  \<open>col_norms m\<close> is
  \<open>torch.norm(m, dim=0)\<close> of one channel \<open>m\<close>: the Euclidean norm of every column.
\<close>

definition col_norms :: "real list list \<Rightarrow> real list" where
  "col_norms m = map (\<lambda>col. sqrt (sum_list (map (\<lambda>v. v * v) col))) (transpose m)"

text \<open>\<open>x / torch.norm(x, dim=1, keepdim=True)\<close>: every row is divided by the column norms.\<close>

definition normalise :: "tensor \<Rightarrow> tensor" where
  "normalise x = map (\<lambda>m. map (\<lambda>row. map2 (/) row (col_norms m)) m) x"

text \<open>\<open>(a * b).sum(1)\<close>, of shape \<open>[C, W]\<close>.\<close>

definition sum_dim1 :: "tensor \<Rightarrow> real list list" where
  "sum_dim1 x = map (\<lambda>m. map sum_list (transpose m)) x"

text \<open>\<open>d.mean()\<close>: the mean of all entries.\<close>

definition mean :: "real list list \<Rightarrow> real" where
  "mean d = sum_list (concat d) / real (length (concat d))"

text \<open>\<open>c.unsqueeze(1) * x\<close> for \<open>c\<close> of shape \<open>[C, W]\<close>: row \<open>h\<close> of channel \<open>k\<close> is multiplied,
  entry by entry, by row \<open>k\<close> of \<open>c\<close>.\<close>

definition unsqueeze_mul :: "real list list \<Rightarrow> tensor \<Rightarrow> tensor" where
  "unsqueeze_mul c x = map2 (\<lambda>ck m. map (\<lambda>row. map2 (*) ck row) m) c x"

definition slerp :: "real \<Rightarrow> tensor \<Rightarrow> tensor \<Rightarrow> tensor" where
  "slerp val low high =
     (let low_norm = normalise low;
          high_norm = normalise high;
          dot = sum_dim1 (t_mul low_norm high_norm)
      in if mean dot > 0.9995 then t_add (t_scale low val) (t_scale high (1 - val))
         else
           (let omega = map (map arccos) dot;
                so = map (map sin) omega
            in t_add
                 (unsqueeze_mul
                    (map2 (map2 (/)) (map (map (\<lambda>w. sin ((1.0 - val) * w))) omega) so) low)
                 (unsqueeze_mul
                    (map2 (map2 (/)) (map (map (\<lambda>w. sin (val * w))) omega) so) high)))"

subsection \<open>\<open>create_random_tensors\<close> (lines 208-268)\<close>

text \<open>
  The random number generator of torch: \<open>manual_seed s\<close> is the state of the global
  generator after \<open>torch.manual_seed(s)\<close>, \<open>randn shape g\<close> is the tensor that
  \<open>torch.randn(shape)\<close> draws in state \<open>g\<close>, with the state after the draw.
  \<open>assign_region x (ty, h, tx, w) noise (dy, dx)\<close> is the tensor \<open>x\<close> after
  \<open>x[:, ty:ty+h, tx:tx+w] = noise[:, dy:dy+h, dx:dx+w]\<close>, or the error torch raises.
\<close>

record 'g torch =
  manual_seed :: "int \<Rightarrow> 'g"
  randn :: "int list \<Rightarrow> 'g \<Rightarrow> tensor \<times> 'g"
  assign_region :: "tensor \<Rightarrow> int \<times> int \<times> int \<times> int \<Rightarrow> tensor \<Rightarrow> int \<times> int \<Rightarrow> error + tensor"

text \<open>
  Modelled from the spec: \<open>devices.randn\<close> and \<open>devices.randn_without_seed\<close> are in
  \<open>modules/devices.py\<close>, which is not among the sources.  "For each seed, produce a
  reproducible noise tensor using that seed as sole entropy source": \<open>devices.randn\<close>
  seeds the global generator with its argument and draws from it;
  \<open>devices.randn_without_seed\<close> draws from the generator as it is.
\<close>

definition devices_randn :: "'g torch \<Rightarrow> int \<Rightarrow> int list \<Rightarrow> 'g \<Rightarrow> tensor \<times> 'g" where
  "devices_randn T sd shape g = randn T shape (manual_seed T sd)"

text \<open>
  Modelled from the spec: \<open>devices.randn_without_seed\<close> (\<open>modules/devices.py\<close>) draws from
  the global generator in the state it is in.
\<close>

definition devices_randn_without_seed :: "'g torch \<Rightarrow> int list \<Rightarrow> 'g \<Rightarrow> tensor \<times> 'g" where
  "devices_randn_without_seed T shape g = randn T shape g"

text \<open>
  A shape is a Python list or a tuple (\<open>torch.Size\<close> is a tuple); the comparison of
  line 239 is Python's, for which a list and a tuple are never equal.
\<close>

datatype pyseq = PyList "int list" | PyTuple "int list"

fun items :: "pyseq \<Rightarrow> int list" where
  "items (PyList xs) = xs"
| "items (PyTuple xs) = xs"

text \<open>The options and the fields of \<open>p\<close> that the function reads.  \<open>needed_noises\<close> is
  \<open>Some (p.sampler.number_of_needed_noises(p))\<close> when neither \<open>p\<close> nor \<open>p.sampler\<close> is
  \<open>None\<close>.\<close>

record noise_opts =
  eta_noise_seed_delta :: "int option"
  enable_batch_seeds :: bool
  needed_noises :: "nat option"

text \<open>Lines 259-260: \<open>cnt\<close> draws without seeding.\<close>

fun draw_noises :: "'g torch \<Rightarrow> nat \<Rightarrow> int list \<Rightarrow> 'g \<Rightarrow> tensor list \<times> 'g" where
  "draw_noises T 0 shape g = ([], g)"
| "draw_noises T (Suc n) shape g =
     (case devices_randn_without_seed T shape g of
        (t, g1) \<Rightarrow> (case draw_noises T n shape g1 of (ts, g2) \<Rightarrow> (t # ts, g2)))"

text \<open>Line 222: the shape of the noise of one seed.\<close>

definition noise_shape_of :: "pyseq \<Rightarrow> int \<Rightarrow> int \<Rightarrow> error + pyseq" where
  "noise_shape_of shape seed_resize_from_h seed_resize_from_w =
     (if seed_resize_from_h \<le> 0 \<or> seed_resize_from_w \<le> 0 then Inr shape
      else (case py_index (items shape) 0 of
              Inl e \<Rightarrow> Inl e
            | Inr c \<Rightarrow> Inr (PyTuple [c, seed_resize_from_h div 8, seed_resize_from_w div 8])))"

text \<open>Lines 224-237: the noise of the seed, blended with the noise of its subseed.\<close>

definition blended_noise ::
  "'g torch \<Rightarrow> pyseq \<Rightarrow> int list option \<Rightarrow> real \<Rightarrow> nat \<Rightarrow> int \<Rightarrow> 'g \<Rightarrow> tensor \<times> 'g" where
  "blended_noise T noise_shape subseeds strength i sd g =
     (case subseeds of
        None \<Rightarrow> devices_randn T sd (items noise_shape) g
      | Some ss \<Rightarrow>
          (case devices_randn T (if i \<ge> length ss then 0 else ss ! i) (items noise_shape) g of
             (subnoise, g1) \<Rightarrow>
               (case devices_randn T sd (items noise_shape) g1 of
                  (noise, g2) \<Rightarrow> (slerp strength noise subnoise, g2))))"

text \<open>
  Lines 239-251: when the shapes differ, the noise is written into the middle of a tensor
  drawn in the target shape.  In that case \<open>noise_shape\<close> is the triple of line 222.
\<close>

definition resized_noise ::
  "'g torch \<Rightarrow> pyseq \<Rightarrow> pyseq \<Rightarrow> int \<Rightarrow> tensor \<Rightarrow> 'g \<Rightarrow> error + (tensor \<times> 'g)" where
  "resized_noise T shape noise_shape sd noise g =
     (if noise_shape \<noteq> shape then
        (case devices_randn T sd (items shape) g of
           (x, g1) \<Rightarrow>
             (case py_index (items shape) 2 of
                Inl e \<Rightarrow> Inl e
              | Inr s2 \<Rightarrow>
                  (case py_index (items shape) 1 of
                     Inl e \<Rightarrow> Inl e
                   | Inr s1 \<Rightarrow>
                       (let n2 = items noise_shape ! 2;
                            n1 = items noise_shape ! 1;
                            dx = (s2 - n2) div 2;
                            dy = (s1 - n1) div 2;
                            w = (if dx \<ge> 0 then n2 else n2 + 2 * dx);
                            h = (if dy \<ge> 0 then n1 else n1 + 2 * dy);
                            tx = (if dx < 0 then 0 else dx);
                            ty = (if dy < 0 then 0 else dy);
                            dx' = max (- dx) 0;
                            dy' = max (- dy) 0
                        in case assign_region T x (ty, h, tx, w) noise (dy', dx') of
                             Inl e \<Rightarrow> Inl e
                           | Inr x' \<Rightarrow> Inr (x', g1)))))
      else Inr (noise, g))"

text \<open>Lines 253-260: the noises drawn for the sampler, when \<open>sampler_noises\<close> is not \<open>None\<close>.\<close>

definition sampler_draws ::
  "'g torch \<Rightarrow> int \<Rightarrow> bool \<Rightarrow> nat \<Rightarrow> pyseq \<Rightarrow> int \<Rightarrow> 'g \<Rightarrow> tensor list \<times> 'g" where
  "sampler_draws T eta with_sampler_noises cnt noise_shape sd g =
     (if with_sampler_noises
      then draw_noises T cnt (items noise_shape) (if eta > 0 then manual_seed T (sd + eta) else g)
      else ([], g))"

text \<open>
  Lines 222-262, the body of the loop for the seed \<open>sd\<close> at position \<open>i\<close>: the noise of
  this seed, the sampler noises drawn for it and the state of the generator.
\<close>

definition noise_of_seed ::
  "'g torch \<Rightarrow> int \<Rightarrow> bool \<Rightarrow> nat \<Rightarrow> pyseq \<Rightarrow> int list option \<Rightarrow> real \<Rightarrow> int \<Rightarrow> int \<Rightarrow>
     nat \<Rightarrow> int \<Rightarrow> 'g \<Rightarrow> error + (tensor \<times> tensor list \<times> 'g)" where
  "noise_of_seed T eta with_sampler_noises cnt shape subseeds strength seed_resize_from_h
      seed_resize_from_w i sd g =
     (case noise_shape_of shape seed_resize_from_h seed_resize_from_w of
        Inl e \<Rightarrow> Inl e
      | Inr noise_shape \<Rightarrow>
          (case blended_noise T noise_shape subseeds strength i sd g of
             (noise1, g1) \<Rightarrow>
               (case resized_noise T shape noise_shape sd noise1 g1 of
                  Inl e \<Rightarrow> Inl e
                | Inr (noise, g2) \<Rightarrow>
                    (case sampler_draws T eta with_sampler_noises cnt noise_shape sd g2 of
                       (ts, g3) \<Rightarrow> Inr (noise, ts, g3)))))"

text \<open>The loop of line 221 over \<open>enumerate(seeds)\<close>, from position \<open>i\<close> on.\<close>

fun seeds_loop ::
  "(nat \<Rightarrow> int \<Rightarrow> 'g \<Rightarrow> error + (tensor \<times> tensor list \<times> 'g)) \<Rightarrow> nat \<Rightarrow> int list \<Rightarrow>
     tensor list \<Rightarrow> tensor list list \<Rightarrow> 'g \<Rightarrow> error + (tensor list \<times> tensor list list \<times> 'g)" where
  "seeds_loop body i [] xs sampler_noises g = Inr (xs, sampler_noises, g)"
| "seeds_loop body i (sd # sds) xs sampler_noises g =
     (case body i sd g of
        Inl e \<Rightarrow> Inl e
      | Inr (noise, ts, g1) \<Rightarrow>
          seeds_loop body (Suc i) sds (xs @ [noise])
            (map2 (\<lambda>l t. l @ [t]) sampler_noises ts) g1)"

text \<open>\<open>torch.stack\<close> of a list of tensors; it raises for the empty list.\<close>

definition stack :: "tensor list \<Rightarrow> error + batch" where
  "stack ts = (if ts = [] then Inl RuntimeError else Inr ts)"

fun stack_all :: "tensor list list \<Rightarrow> error + batch list" where
  "stack_all [] = Inr []"
| "stack_all (n # ns) =
     (case stack n of
        Inl e \<Rightarrow> Inl e
      | Inr b \<Rightarrow> (case stack_all ns of Inl e \<Rightarrow> Inl e | Inr bs \<Rightarrow> Inr (b # bs)))"

text \<open>
  The whole function.  The result is the returned batch, the value assigned to
  \<open>p.sampler.sampler_noises\<close> (\<open>None\<close> when line 265 does not run) and the state of the
  generator.
\<close>

definition create_random_tensors ::
  "'g torch \<Rightarrow> noise_opts \<Rightarrow> pyseq \<Rightarrow> int list \<Rightarrow> int list option \<Rightarrow> real \<Rightarrow> int \<Rightarrow> int \<Rightarrow> 'g \<Rightarrow>
     error + (batch \<times> batch list option \<times> 'g)" where
  "create_random_tensors T opts shape seeds subseeds strength seed_resize_from_h
      seed_resize_from_w g =
     (let eta = (case eta_noise_seed_delta opts of None \<Rightarrow> 0 | Some d \<Rightarrow> d);
          with_sampler_noises =
            (needed_noises opts \<noteq> None
             \<and> (length seeds > 1 \<and> enable_batch_seeds opts \<or> eta > 0));
          cnt = (case needed_noises opts of None \<Rightarrow> 0 | Some n \<Rightarrow> n)
      in case seeds_loop
                (noise_of_seed T eta with_sampler_noises cnt shape subseeds strength
                   seed_resize_from_h seed_resize_from_w)
                0 seeds [] (if with_sampler_noises then replicate cnt [] else []) g of
           Inl e \<Rightarrow> Inl e
         | Inr (xs, sampler_noises, g1) \<Rightarrow>
             (case (if with_sampler_noises
                    then (case stack_all sampler_noises of
                            Inl e \<Rightarrow> Inl e
                          | Inr bs \<Rightarrow> Inr (Some bs))
                    else Inr None) of
                Inl e \<Rightarrow> Inl e
              | Inr assigned \<Rightarrow>
                  (case stack xs of
                     Inl e \<Rightarrow> Inl e
                   | Inr x \<Rightarrow> Inr (x, assigned, g1))))"

subsection \<open>The recomposite of \<open>StableDiffusionProcessingImg2ImgEx.sample\<close> (lines 801-802)\<close>

text \<open>
  The entries of the latents and of the masks are floating-point numbers: a finite
  value, an infinity or NaN.  Finite values are multiplied and added as the real numbers
  they are; the recomposite multiplies by 0 or 1 and adds 0 only, which floating-point
  arithmetic does without rounding.  The product of an infinity and 0 and the sum of the
  two infinities are NaN, and an operation on NaN gives NaN.
\<close>

datatype fval = Fin real | PosInf | NegInf | NaN

fun is_finite :: "fval \<Rightarrow> bool" where
  "is_finite (Fin a) = True"
| "is_finite x = False"

text \<open>The product of the positive (\<open>True\<close>) or negative infinity and a finite value.\<close>

definition inf_times :: "bool \<Rightarrow> real \<Rightarrow> fval" where
  "inf_times positive a =
     (if a = 0 then NaN else if (0 < a) = positive then PosInf else NegInf)"

fun fmul :: "fval \<Rightarrow> fval \<Rightarrow> fval" where
  "fmul (Fin a) (Fin b) = Fin (a * b)"
| "fmul (Fin a) PosInf = inf_times True a"
| "fmul (Fin a) NegInf = inf_times False a"
| "fmul PosInf (Fin a) = inf_times True a"
| "fmul NegInf (Fin a) = inf_times False a"
| "fmul PosInf PosInf = PosInf"
| "fmul PosInf NegInf = NegInf"
| "fmul NegInf PosInf = NegInf"
| "fmul NegInf NegInf = PosInf"
| "fmul NaN y = NaN"
| "fmul x NaN = NaN"

fun fadd :: "fval \<Rightarrow> fval \<Rightarrow> fval" where
  "fadd (Fin a) (Fin b) = Fin (a + b)"
| "fadd (Fin a) PosInf = PosInf"
| "fadd (Fin a) NegInf = NegInf"
| "fadd PosInf (Fin a) = PosInf"
| "fadd NegInf (Fin a) = NegInf"
| "fadd PosInf PosInf = PosInf"
| "fadd NegInf NegInf = NegInf"
| "fadd PosInf NegInf = NaN"
| "fadd NegInf PosInf = NaN"
| "fadd NaN y = NaN"
| "fadd x NaN = NaN"

text \<open>\<open>==\<close> of two floating-point numbers: NaN is equal to nothing, not even to NaN.\<close>

fun ieee_eq :: "fval \<Rightarrow> fval \<Rightarrow> bool" where
  "ieee_eq NaN y = False"
| "ieee_eq x NaN = False"
| "ieee_eq x y = (x = y)"

text \<open>A batch \<open>[B, C, H, W]\<close> of such entries; \<open>+\<close> and \<open>*\<close> act entry by entry.\<close>

type_synonym fbatch = "fval list list list list"

definition fb_add :: "fbatch \<Rightarrow> fbatch \<Rightarrow> fbatch" where
  "fb_add = map2 (map2 (map2 (map2 fadd)))"

definition fb_mul :: "fbatch \<Rightarrow> fbatch \<Rightarrow> fbatch" where
  "fb_mul = map2 (map2 (map2 (map2 fmul)))"

text \<open>\<open>samples * self.nmask + self.init_latent * self.mask\<close>.\<close>

definition recomposite :: "fbatch \<Rightarrow> fbatch \<Rightarrow> fbatch \<Rightarrow> fbatch \<Rightarrow> fbatch" where
  "recomposite samples nmask init_latent msk =
     fb_add (fb_mul samples nmask) (fb_mul init_latent msk)"

text \<open>Two batches of one shape whose entries at each position are related by \<open>R\<close>.\<close>

definition entrywise :: "(fval \<Rightarrow> fval \<Rightarrow> bool) \<Rightarrow> fbatch \<Rightarrow> fbatch \<Rightarrow> bool" where
  "entrywise R = list_all2 (list_all2 (list_all2 (list_all2 R)))"

text \<open>A batch of the shape of the masks, all of whose entries are finite.\<close>

definition finite_entries :: "fbatch \<Rightarrow> fbatch \<Rightarrow> bool" where
  "finite_entries x msk = entrywise (\<lambda>e m. is_finite e) x msk"

text \<open>
  Lines 775-779 build the two masks from the rounded latent mask \<open>latmask\<close>, whose
  entries are 0 or 1: \<open>self.mask\<close> is \<open>1 - latmask\<close> and \<open>self.nmask\<close> is \<open>latmask\<close>.
\<close>

definition binary_masks :: "fbatch \<Rightarrow> fbatch \<Rightarrow> bool" where
  "binary_masks msk nmask =
     entrywise (\<lambda>m n. m = Fin 0 \<and> n = Fin 1 \<or> m = Fin 1 \<and> n = Fin 0) msk nmask"

text \<open>\<open>np.around\<close>: to the nearest integer, a half to the even neighbour.\<close>

definition np_around :: "real \<Rightarrow> real" where
  "np_around x =
     (if x - of_int \<lfloor>x\<rfloor> = 1 / 2
      then (if even \<lfloor>x\<rfloor> then of_int \<lfloor>x\<rfloor> else of_int \<lfloor>x\<rfloor> + 1)
      else of_int (round x))"

text \<open>
  Lines 774-779 for one image: \<open>latmask\<close> is channel 0 of the resized mask divided by
  255, of shape \<open>[h, w]\<close>; it is rounded and repeated over the 4 latent channels.  The
  result is the pair of the tensors appended to \<open>masks\<close> and to \<open>nmasks\<close>.
\<close>

definition latent_masks :: "real list list \<Rightarrow> fval list list list \<times> fval list list list" where
  "latent_masks latmask =
     (let rounded = map (map np_around) latmask;
          tiled = replicate 4 rounded
      in (map (map (map (\<lambda>x. Fin (1.0 - x)))) tiled, map (map (map Fin)) tiled))"

text \<open>Every entry of the masks before rounding lies between 0 and 1.\<close>

definition unit_range :: "real list list list \<Rightarrow> bool" where
  "unit_range latmasks = list_all (list_all (list_all (\<lambda>x. 0 \<le> x \<and> x \<le> 1))) latmasks"

subsection \<open>The main loop and the result of \<open>process_images_inner\<close> (lines 396-401 and 443-601)\<close>

text \<open>
  What the loop and the code after it read and write: the request \<open>p\<close> (its fields of
  \<open>request\<close>, the lists \<open>p.all_prompts\<close>, ..., \<open>p.do_not_save_grid\<close> and
  \<open>p.iteration\<close>), the flags \<open>state.skipped\<close> and \<open>state.interrupted\<close>, four options,
  the local lists \<open>output_images\<close> and \<open>infotexts\<close>, and the grids handed to
  \<open>images.save_image\<close>.  All of it is one state, since the scripts and the other
  collaborators called during an iteration may change any part of it.
\<close>

record 'img run =
  req :: request
  lists :: prepared
  do_not_save_grid :: bool
  p_iteration :: int
  skipped :: bool
  interrupted :: bool
  return_grid :: bool
  grid_save :: bool
  grid_only_if_multiple :: bool
  enable_pnginfo :: bool
  output_images :: "'img list"
  infotexts :: "string list"
  saved_grids :: "'img list"
















subsection \<open>A run of four iterations that is interrupted during the second\<close>



section \<open>Properties\<close>

lemma py_slice_prefix: "py_slice xs 0 (int n) = take n xs"
  by (cases "n \<le> length xs") (simp_all add: py_slice_def py_bound_def min_def)

text \<open>
  C10.  When the overlay list is \<open>None\<close> or the index is at least the number of
  overlays, \<open>apply_overlay\<close> returns the image it was given, whatever the paste location
  and whatever the PIL operations do: none of them is applied.
\<close>

theorem apply_overlay_unchanged:
  "overlays = None \<or> (\<exists>ovs. overlays = Some ovs \<and> index \<ge> int (length ovs)) \<Longrightarrow>
     apply_overlay P img paste_loc index overlays = Inr img"
  by (auto simp: apply_overlay_def)

theorem apply_overlay_unchanged_witness:
  "apply_overlay \<lparr>new_rgba = (\<lambda>ov. ov), resize_image = (\<lambda>m i w h. i + 1),
                   paste = (\<lambda>b i xy. b + i), convert = (\<lambda>s i. i + 7),
                   alpha_composite = (\<lambda>i ov. i + ov)\<rparr>
     (5::nat) (Some (0, 0, 8, 8)) 2 (Some [10, 20]) = Inr 5
   \<and> apply_overlay \<lparr>new_rgba = (\<lambda>ov. ov), resize_image = (\<lambda>m i w h. i + 1),
                   paste = (\<lambda>b i xy. b + i), convert = (\<lambda>s i. i + 7),
                   alpha_composite = (\<lambda>i ov. i + ov)\<rparr>
     (5::nat) (Some (0, 0, 8, 8)) 1 (Some [10, 20]) = Inr 60"
proof -
  have "apply_overlay \<lparr>new_rgba = (\<lambda>ov. ov), resize_image = (\<lambda>m i w h. i + 1),
                   paste = (\<lambda>b i xy. b + i), convert = (\<lambda>s i. i + 7),
                   alpha_composite = (\<lambda>i ov. i + ov)\<rparr>
     (5::nat) (Some (0, 0, 8, 8)) 2 (Some [10, 20::nat]) = Inr 5"
    by (rule apply_overlay_unchanged) simp
  then show ?thesis
    by (simp add: apply_overlay_def py_index_def)
qed

text \<open>
  C5.  For a non-empty list of masks, the constructor leaves as many masks as images:
  fewer masks are filled up with copies of the last one, more masks are cut to the first
  \<open>len(init_images)\<close>.  Three images with one mask give three copies of it, three
  images with five masks give the first three masks.
\<close>

theorem img2img_ex_init_masks:
  "masks \<noteq> [] \<Longrightarrow>
     (\<exists>r. img2img_ex_init (Some imgs) (Some masks) = Inr r
        \<and> batch_size_ex r = length imgs
        \<and> (\<exists>ms. image_masks r = Some ms \<and> length ms = length imgs
             \<and> (length masks < length imgs \<longrightarrow>
                   ms = masks @ replicate (length imgs - length masks) (last masks))
             \<and> (length imgs \<le> length masks \<longrightarrow> ms = take (length imgs) masks)))
     \<and> (\<exists>r. img2img_ex_init (Some [i1, i2, i3]) (Some [m]) = Inr r
            \<and> image_masks r = Some [m, m, m])
     \<and> (\<exists>r. img2img_ex_init (Some [i1, i2, i3]) (Some [m1, m2, m3, m4, m5]) = Inr r
            \<and> image_masks r = Some [m1, m2, m3])"
  by (cases masks)
     (auto simp: img2img_ex_init_def py_index_def py_slice_prefix Let_def numeral_eq_Suc)

theorem img2img_ex_init_masks_witness:
  "image_masks (projr (img2img_ex_init (Some [''a'', ''b'', ''c'', ''d'']) (Some [1::nat, 2])))
     = Some [1, 2, 2, 2]"
  using img2img_ex_init_masks [of "[1::nat, 2]" "[''a'', ''b'', ''c'', ''d'']", THEN conjunct1]
  by auto

text \<open>
  C9.  For a request whose prompt passes the assertions of lines 361-364: when the fixed
  seed is an integer \<open>s\<close>, \<open>all_seeds\<close> has one entry per prompt, entry \<open>i\<close> being
  \<open>s + i\<close> if \<open>subseed_strength\<close> is 0 and \<open>s\<close> otherwise; when the fixed subseed is an
  integer \<open>t\<close>, entry \<open>i\<close> of \<open>all_subseeds\<close> is \<open>t + i\<close>, whatever the strength.
\<close>

theorem scalar_seed_expansion:
  "(prompt p \<noteq> PromptNone \<and> prompt p \<noteq> PromptList []
      \<and> get_fixed_seed rnd1 (seed p) = SeedInt s \<and> get_fixed_seed rnd2 (subseed p) = SeedInt t
      \<longrightarrow> (\<exists>r. prepare_run sty nsty rnd1 rnd2 p = Inr r))
   \<and> (prepare_run sty nsty rnd1 rnd2 p = Inr r \<longrightarrow>
       (get_fixed_seed rnd1 (seed p) = SeedInt s \<longrightarrow>
          length (all_seeds r) = length (all_prompts r)
          \<and> (\<forall>i < length (all_prompts r).
                all_seeds r ! i = (if subseed_strength p = 0 then s + int i else s)))
       \<and> (get_fixed_seed rnd2 (subseed p) = SeedInt t \<longrightarrow>
          length (all_subseeds r) = length (all_prompts r)
          \<and> (\<forall>i < length (all_prompts r). all_subseeds r ! i = t + int i)))"
  by (auto simp: prepare_run_def seed_range_def Let_def
           split: if_splits sum.splits seed_arg.splits prompt_arg.splits list.splits)

theorem scalar_seed_expansion_witness:
  "prepare_run (\<lambda>t st. t) (\<lambda>t st. ''neg'') 7 8
      \<lparr>prompt = PromptStr ''cat'', negative_prompt = PromptNone, seed = SeedInt 100,
       subseed = SeedInt (- 1), subseed_strength = 1 / 2, batch_size = 3, n_iter = 1,
       styles = []\<rparr>
     = Inr \<lparr>all_prompts = [''cat'', ''cat'', ''cat''],
            all_negative_prompts = [''neg'', ''neg'', ''neg''],
            all_seeds = [100, 100, 100], all_subseeds = [8, 9, 10]\<rparr>
   \<and> [100, 100, 100] ! 2 = (100::int) \<and> [8, 9, 10] ! 2 = (8::int) + 2"
proof -
  let ?p = "\<lparr>prompt = PromptStr ''cat'', negative_prompt = PromptNone, seed = SeedInt 100,
       subseed = SeedInt (- 1), subseed_strength = 1 / 2, batch_size = 3, n_iter = 1,
       styles = []\<rparr>"
  let ?r = "\<lparr>all_prompts = [''cat'', ''cat'', ''cat''],
            all_negative_prompts = [''neg'', ''neg'', ''neg''],
            all_seeds = [100, 100, 100], all_subseeds = [8, 9, 10]\<rparr>"
  have run: "prepare_run (\<lambda>t st. t) (\<lambda>t st. ''neg'') 7 8 ?p = Inr ?r"
    by (simp add: prepare_run_def seed_range_def get_fixed_seed_def prompt_text_def
                  Let_def numeral_eq_Suc upt_rec)
  have s1: "get_fixed_seed 7 (seed ?p) = SeedInt 100"
    and s2: "get_fixed_seed 8 (subseed ?p) = SeedInt 8"
    by (simp_all add: get_fixed_seed_def)
  from scalar_seed_expansion [of ?p 7 100 8 8 "\<lambda>t st. t" "\<lambda>t st. ''neg''" ?r] s1 s2 run show ?thesis
    by simp
qed

text \<open>
  C4.  Starting from a cache that does not hold the key \<open>(prompts, steps)\<close> (the empty
  cache of line 408 is one), two calls in a row with that key call the conditioning
  function once: the second call returns the result of the first and leaves the cache
  and the model state as they are.  A following call with another key calls the function
  again and stores the new key with the new result.
\<close>

theorem conds_cache_hit_then_miss:
  assumes "cache_key c0 \<noteq> Some (ps, n)"
    and "get_conds_with_caching f ps n c0 (w0, k0) = (r1, c1, w1, k1)"
    and "get_conds_with_caching f ps n c1 (w1, k1) = (r2, c2, w2, k2)"
    and "(ps', n') \<noteq> (ps, n)"
    and "get_conds_with_caching f ps' n' c2 (w2, k2) = (r3, c3, w3, k3)"
  shows "k1 = Suc k0 \<and> (r1, w1) = f ps n w0
       \<and> k2 = k1 \<and> r2 = r1 \<and> c2 = c1 \<and> w2 = w1
       \<and> c1 = \<lparr>cache_key = Some (ps, n), cache_value = r1\<rparr>
       \<and> k3 = Suc k2 \<and> (r3, w3) = f ps' n' w2
       \<and> c3 = \<lparr>cache_key = Some (ps', n'), cache_value = r3\<rparr>"
proof -
  from assms(1,2) have first: "k1 = Suc k0" "(r1, w1) = f ps n w0"
    "c1 = \<lparr>cache_key = Some (ps, n), cache_value = r1\<rparr>"
    by (auto simp: get_conds_with_caching_def split: prod.splits)
  from assms(3) first(3) have second: "k2 = k1" "r2 = r1" "c2 = c1" "w2 = w1"
    by (auto simp: get_conds_with_caching_def)
  from assms(4,5) second(3) first(3) have third: "k3 = Suc k2" "(r3, w3) = f ps' n' w2"
    "c3 = \<lparr>cache_key = Some (ps', n'), cache_value = r3\<rparr>"
    by (auto simp: get_conds_with_caching_def split: prod.splits)
  from first second third show ?thesis by simp
qed

theorem conds_cache_hit_then_miss_witness:
  "get_conds_with_caching (\<lambda>ps n w. (length ps + nat n + w, Suc w)) [''a'', ''b''] 20
       \<lparr>cache_key = None, cache_value = 0\<rparr> (0, 0)
     = (22, \<lparr>cache_key = Some ([''a'', ''b''], 20), cache_value = 22\<rparr>, 1, 1)
   \<and> get_conds_with_caching (\<lambda>ps n w. (length ps + nat n + w, Suc w)) [''a'', ''b''] 20
       \<lparr>cache_key = Some ([''a'', ''b''], 20), cache_value = 22\<rparr> (1, 1)
     = (22, \<lparr>cache_key = Some ([''a'', ''b''], 20), cache_value = 22\<rparr>, 1, 1)
   \<and> get_conds_with_caching (\<lambda>ps n w. (length ps + nat n + w, Suc w)) [''a'', ''b''] 40
       \<lparr>cache_key = Some ([''a'', ''b''], 20), cache_value = 22\<rparr> (1, 1)
     = (43, \<lparr>cache_key = Some ([''a'', ''b''], 40), cache_value = 43\<rparr>, 2, 2)"
proof -
  let ?f = "\<lambda>ps n w. (length ps + nat n + w, Suc w)"
  let ?c1 = "\<lparr>cache_key = Some ([''a'', ''b''], 20), cache_value = 22::nat\<rparr>"
  have a: "cache_key \<lparr>cache_key = None, cache_value = 0::nat\<rparr> \<noteq> Some ([''a'', ''b''], 20)"
    by simp
  have b: "get_conds_with_caching ?f [''a'', ''b''] 20 \<lparr>cache_key = None, cache_value = 0\<rparr> (0, 0)
             = (22, ?c1, 1, 1)"
    by (simp add: get_conds_with_caching_def)
  have c: "get_conds_with_caching ?f [''a'', ''b''] 20 ?c1 (1, 1) = (22, ?c1, 1, 1)"
    by (simp add: get_conds_with_caching_def)
  have d: "([''a'', ''b''], 40) \<noteq> ([''a'', ''b''], 20::int)"
    by simp
  have e: "get_conds_with_caching ?f [''a'', ''b''] 40 ?c1 (1, 1)
             = (43, \<lparr>cache_key = Some ([''a'', ''b''], 40), cache_value = 43\<rparr>, 2, 2)"
    by (simp add: get_conds_with_caching_def)
  from conds_cache_hit_then_miss [OF a b c d e] b c e show ?thesis
    by simp
qed

subsection \<open>Overrides of \<open>process_images\<close>\<close>

lemma stored_opts_keys:
  "stored_opts d ks = Inr kvs \<Longrightarrow> map fst kvs = ks \<and> (\<forall>(k, v) \<in> set kvs. d k = Some v)"
  by (induction ks arbitrary: kvs) (auto split: option.splits sum.splits)

lemma restore_opts_data:
  assumes "\<forall>(k, v) \<in> set kvs. d k = Some v"
    and "fst (restore_opts C kvs g) = None"
  shows "opts_data (snd (restore_opts C kvs g))
         = (\<lambda>k. if k \<in> fst ` set kvs then d k else opts_data g k)"
  using assms
proof (induction kvs arbitrary: g)
  case Nil
  then show ?case by simp
next
  case (Cons kv kvs)
  obtain k v where kv: "kv = (k, v)" by (cases kv)
  from Cons.prems kv have dk: "d k = Some v" and rest: "\<forall>(k, v) \<in> set kvs. d k = Some v"
    by auto
  obtain e g1 where step:
    "(if k = ''sd_vae'' then reload_vae C (set_opt k v g) else (None, set_opt k v g)) = (e, g1)"
    by (cases "if k = ''sd_vae'' then reload_vae C (set_opt k v g) else (None, set_opt k v g)")
  then have g1: "opts_data g1 = (opts_data g)(k \<mapsto> v)"
    by (auto simp: reload_vae_def set_opt_def split: if_splits prod.splits)
  from Cons.prems(2) kv step have e: "e = None"
    by (cases e) auto
  with Cons.prems(2) kv step have "fst (restore_opts C kvs g1) = None"
    by simp
  from Cons.IH [OF rest this] step e g1 dk kv show ?case
    by (auto simp: fun_eq_iff)
qed

text \<open>
  C2, as stated, fails: the \<open>finally\<close> block restores the options only when the request's
  \<open>override_settings_restore_afterwards\<close> is set.  With the flag off, the override of
  \<open>CLIP_stop_at_last_layers\<close> from 1 to 2 is still in \<open>opts\<close> after a run that returns
  normally.  It is still there, too, when the flag was set at the call and a script
  cleared it during \<open>process_images_inner\<close>; and when \<open>reload_vae_weights\<close> raises while
  \<open>sd_vae\<close> is restored, the keys after it keep their overrides.
\<close>

theorem process_images_keeps_override:
  "opts_data (snd (snd (process_images
      \<lparr>checkpoint_known = (\<lambda>x. False), reload_model_weights = (\<lambda>d w. (None, w)),
       reload_vae_weights = (\<lambda>d w. (None, w)), inner = (\<lambda>p g. (Inr (), p, g))\<rparr>
      \<lparr>override_settings = [(''CLIP_stop_at_last_layers'', 2::nat)],
       override_settings_restore_afterwards = False\<rparr>
      \<lparr>opts_data = [''CLIP_stop_at_last_layers'' \<mapsto> 1], weights = ()\<rparr>)))
     ''CLIP_stop_at_last_layers''
   \<noteq> opts_data \<lparr>opts_data = [''CLIP_stop_at_last_layers'' \<mapsto> 1::nat], weights = ()\<rparr>
       ''CLIP_stop_at_last_layers''
   \<and> opts_data (snd (snd (process_images
      \<lparr>checkpoint_known = (\<lambda>x. False), reload_model_weights = (\<lambda>d w. (None, w)),
       reload_vae_weights = (\<lambda>d w. (None, w)),
       inner = (\<lambda>p g. (Inr (), p\<lparr>override_settings_restore_afterwards := False\<rparr>, g))\<rparr>
      \<lparr>override_settings = [(''CLIP_stop_at_last_layers'', 2::nat)],
       override_settings_restore_afterwards = True\<rparr>
      \<lparr>opts_data = [''CLIP_stop_at_last_layers'' \<mapsto> 1], weights = ()\<rparr>)))
     ''CLIP_stop_at_last_layers'' = Some 2
   \<and> opts_data (snd (snd (process_images
      \<lparr>checkpoint_known = (\<lambda>x. False), reload_model_weights = (\<lambda>d w. (None, w)),
       reload_vae_weights =
         (\<lambda>d w. (if d ''sd_vae'' = Some 1 then Some (Raised ''FileNotFoundError'') else None, w)),
       inner = (\<lambda>p g. (Inr (), p, g))\<rparr>
      \<lparr>override_settings = [(''sd_vae'', 2::nat), (''CLIP_stop_at_last_layers'', 2)],
       override_settings_restore_afterwards = True\<rparr>
      \<lparr>opts_data = [''sd_vae'' \<mapsto> 1, ''CLIP_stop_at_last_layers'' \<mapsto> 1], weights = ()\<rparr>)))
     ''CLIP_stop_at_last_layers'' = Some 2"
  by (simp add: process_images_def try_block_def reload_model_def reload_vae_def Let_def
                set_opt_def)

text \<open>
  C2, amended.  When \<open>override_settings_restore_afterwards\<close> is set in the request as
  the \<open>finally\<close> block reads it (line 348, after \<open>process_images_inner\<close> and the scripts
  had the request), and nothing is raised inside the \<open>finally\<close> block (its only call that
  can raise is \<open>reload_vae_weights\<close>), every key of the \<open>override_settings\<close> passed in
  holds in \<open>opts.data\<close>, after \<open>process_images\<close>, the value it held before the call:
  whether \<open>process_images_inner\<close> returned or raised, whatever it and the reloads of the
  \<open>try\<close> block did, and also when line 327 raised \<open>KeyError\<close>.
\<close>

theorem process_images_restores:
  assumes "override_settings_restore_afterwards (fst (snd (process_images C p g)))"
    and "finally_error C p g = None"
    and "k \<in> fst ` set (override_settings p)"
  shows "opts_data (snd (snd (process_images C p g))) k = opts_data g k"
proof (cases "stored_opts (opts_data g) (map fst (override_settings p))")
  case (Inl e)
  then show ?thesis by (simp add: process_images_def)
next
  case (Inr stored)
  from stored_opts_keys [OF Inr] have keys: "map fst stored = map fst (override_settings p)"
    and vals: "\<forall>(k, v) \<in> set stored. opts_data g k = Some v"
    by auto
  from keys have same: "fst ` set stored = fst ` set (override_settings p)"
    by (metis list.set_map)
  obtain res p1 g1 where tb: "try_block C p g = (res, p1, g1)"
    by (cases "try_block C p g")
  from assms(1) Inr tb have flag: "override_settings_restore_afterwards p1"
    by (simp add: process_images_def split: if_splits prod.splits option.splits)
  with assms(2) Inr tb have ok: "fst (restore_opts C stored g1) = None"
    by (simp add: finally_error_def)
  then obtain g2 where ro: "restore_opts C stored g1 = (None, g2)"
    by (cases "restore_opts C stored g1") simp
  from restore_opts_data [OF vals ok] ro same assms(3)
  have "opts_data g2 k = opts_data g k"
    by simp
  with Inr tb flag ro show ?thesis
    by (simp add: process_images_def)
qed

theorem process_images_restores_witness:
  "process_images
      \<lparr>checkpoint_known = (\<lambda>x. False), reload_model_weights = (\<lambda>d w. (None, w)),
       reload_vae_weights = (\<lambda>d w. (None, Suc w)),
       inner = (\<lambda>p g. (Inl (Raised ''NansException''), p, g\<lparr>opts_data := Map.empty\<rparr>))\<rparr>
      \<lparr>override_settings = [(''sd_vae'', 2::nat)],
       override_settings_restore_afterwards = True\<rparr>
      \<lparr>opts_data = [''sd_vae'' \<mapsto> 1], weights = 0::nat\<rparr>
    = (Inl (Raised ''NansException'') :: error + unit,
       \<lparr>override_settings = [(''sd_vae'', 2::nat)], override_settings_restore_afterwards = True\<rparr>,
       \<lparr>opts_data = [''sd_vae'' \<mapsto> 1], weights = 2\<rparr>)"
proof -
  let ?C = "\<lparr>checkpoint_known = (\<lambda>x. False), reload_model_weights = (\<lambda>d w. (None, w)),
       reload_vae_weights = (\<lambda>d w. (None, Suc w)),
       inner = (\<lambda>p g. (Inl (Raised ''NansException'') :: error + unit, p,
                          g\<lparr>opts_data := Map.empty\<rparr>))\<rparr>"
  let ?p = "\<lparr>override_settings = [(''sd_vae'', 2::nat)],
       override_settings_restore_afterwards = True\<rparr>"
  let ?g = "\<lparr>opts_data = [''sd_vae'' \<mapsto> 1::nat], weights = 0::nat\<rparr>"
  have c: "process_images ?C ?p ?g
             = (Inl (Raised ''NansException''), ?p, \<lparr>opts_data = [''sd_vae'' \<mapsto> 1], weights = 2\<rparr>)"
    by (simp add: process_images_def try_block_def Let_def set_opt_def reload_vae_def
                  reload_model_def)
  then have a: "override_settings_restore_afterwards (fst (snd (process_images ?C ?p ?g)))"
    by simp
  have b: "finally_error ?C ?p ?g = None"
    by (simp add: finally_error_def try_block_def Let_def set_opt_def reload_vae_def
                  reload_model_def)
  have k: "''sd_vae'' \<in> fst ` set (override_settings ?p)" by simp
  from process_images_restores [OF a b k] c show ?thesis
    by simp
qed

subsection \<open>The recomposite after sampling\<close>

lemma lift_idem:
  assumes a: "list_all2 RA a m" and b: "list_all2 RB b m" and mn: "list_all2 RM m n"
    and elem: "\<And>x y u v. RA x u \<Longrightarrow> RB y u \<Longrightarrow> RM u v \<Longrightarrow>
                 add (mul (add (mul x v) (mul y u)) v) (mul y u) = add (mul x v) (mul y u)"
  shows "map2 add (map2 mul (map2 add (map2 mul a n) (map2 mul b m)) n) (map2 mul b m)
           = map2 add (map2 mul a n) (map2 mul b m)"
proof -
  from a b mn have len: "length a = length m" "length b = length m" "length n = length m"
    by (simp_all add: list_all2_lengthD)
  show ?thesis
  proof (rule nth_equalityI)
    show "length (map2 add (map2 mul (map2 add (map2 mul a n) (map2 mul b m)) n) (map2 mul b m))
            = length (map2 add (map2 mul a n) (map2 mul b m))"
      using len by simp
  next
    fix i
    assume "i < length (map2 add (map2 mul (map2 add (map2 mul a n) (map2 mul b m)) n) (map2 mul b m))"
    with len have i: "i < length m" by simp
    with a b mn len have "RA (a ! i) (m ! i)" "RB (b ! i) (m ! i)" "RM (m ! i) (n ! i)"
      by (simp_all add: list_all2_nthD list_all2_nthD2)
    from elem [OF this] i len
    show "map2 add (map2 mul (map2 add (map2 mul a n) (map2 mul b m)) n) (map2 mul b m) ! i
            = map2 add (map2 mul a n) (map2 mul b m) ! i"
      by simp
  qed
qed

lemma lift_idem2:
  assumes "list_all2 (list_all2 RA) a m" and "list_all2 (list_all2 RB) b m"
    and "list_all2 (list_all2 RM) m n"
    and elem: "\<And>x y u v. RA x u \<Longrightarrow> RB y u \<Longrightarrow> RM u v \<Longrightarrow>
                 add (mul (add (mul x v) (mul y u)) v) (mul y u) = add (mul x v) (mul y u)"
  shows "map2 (map2 add) (map2 (map2 mul) (map2 (map2 add) (map2 (map2 mul) a n)
            (map2 (map2 mul) b m)) n) (map2 (map2 mul) b m)
           = map2 (map2 add) (map2 (map2 mul) a n) (map2 (map2 mul) b m)"
  using assms(1-3)
proof (rule lift_idem)
  fix x y u v
  assume "list_all2 RA x u" "list_all2 RB y u" "list_all2 RM u v"
  then show "map2 add (map2 mul (map2 add (map2 mul x v) (map2 mul y u)) v) (map2 mul y u)
               = map2 add (map2 mul x v) (map2 mul y u)"
    by (rule lift_idem) (rule elem)
qed

lemma entry_idem:
  assumes "is_finite x" "is_finite y" "u = Fin 0 \<and> v = Fin 1 \<or> u = Fin 1 \<and> v = Fin 0"
  shows "fadd (fmul (fadd (fmul x v) (fmul y u)) v) (fmul y u) = fadd (fmul x v) (fmul y u)"
  using assms by (cases x; cases y) auto

lemma recomposite_idem:
  assumes "finite_entries A msk" "finite_entries B msk" "binary_masks msk nmask"
  shows "recomposite (recomposite A nmask B msk) nmask B msk = recomposite A nmask B msk"
  using assms unfolding recomposite_def fb_add_def fb_mul_def
    finite_entries_def binary_masks_def entrywise_def
proof (rule lift_idem2)
  fix x y u v :: "fval list list"
  assume "list_all2 (list_all2 (\<lambda>e m. is_finite e)) x u"
    "list_all2 (list_all2 (\<lambda>e m. is_finite e)) y u"
    "list_all2 (list_all2 (\<lambda>m n. m = Fin 0 \<and> n = Fin 1 \<or> m = Fin 1 \<and> n = Fin 0)) u v"
  then show "map2 (map2 fadd) (map2 (map2 fmul) (map2 (map2 fadd) (map2 (map2 fmul) x v)
                (map2 (map2 fmul) y u)) v) (map2 (map2 fmul) y u)
             = map2 (map2 fadd) (map2 (map2 fmul) x v) (map2 (map2 fmul) y u)"
    by (rule lift_idem2) (rule entry_idem)
qed

lemma recomposite_entry:
  "finite_entries A msk \<Longrightarrow> finite_entries B msk \<Longrightarrow> binary_masks msk nmask \<Longrightarrow>
   b < length msk \<Longrightarrow> c < length (msk ! b) \<Longrightarrow> i < length (msk ! b ! c) \<Longrightarrow>
   j < length (msk ! b ! c ! i) \<Longrightarrow>
   recomposite A nmask B msk ! b ! c ! i ! j
     = fadd (fmul (A ! b ! c ! i ! j) (nmask ! b ! c ! i ! j))
            (fmul (B ! b ! c ! i ! j) (msk ! b ! c ! i ! j))"
  unfolding recomposite_def fb_add_def fb_mul_def
    finite_entries_def binary_masks_def entrywise_def
  by (simp add: list_all2_conv_all_nth)

lemma entries_at:
  "entrywise R x y \<Longrightarrow>
   b < length y \<Longrightarrow> c < length (y ! b) \<Longrightarrow> i < length (y ! b ! c) \<Longrightarrow>
   j < length (y ! b ! c ! i) \<Longrightarrow> R (x ! b ! c ! i ! j) (y ! b ! c ! i ! j)"
  unfolding entrywise_def
  by (simp add: list_all2_conv_all_nth)

lemma entries_at_left:
  "entrywise R x y \<Longrightarrow>
   b < length x \<Longrightarrow> c < length (x ! b) \<Longrightarrow> i < length (x ! b ! c) \<Longrightarrow>
   j < length (x ! b ! c ! i) \<Longrightarrow> R (x ! b ! c ! i ! j) (y ! b ! c ! i ! j)"
  unfolding entrywise_def
  by (simp add: list_all2_conv_all_nth)

lemma binary_masks_entry:
  assumes "binary_masks msk nmask"
    and "b < length msk" "c < length (msk ! b)" "i < length (msk ! b ! c)"
    and "j < length (msk ! b ! c ! i)"
  shows "msk ! b ! c ! i ! j = Fin 0 \<and> nmask ! b ! c ! i ! j = Fin 1
      \<or> msk ! b ! c ! i ! j = Fin 1 \<and> nmask ! b ! c ! i ! j = Fin 0"
  using entries_at_left [OF assms(1) [unfolded binary_masks_def] assms(2-5)] .

text \<open>The masks that lines 774-779 build satisfy the hypothesis on the masks.\<close>

lemma np_around_unit: "0 \<le> x \<Longrightarrow> x \<le> 1 \<Longrightarrow> np_around x = 0 \<or> np_around x = 1"
proof -
  assume a: "0 \<le> x" "x \<le> 1"
  then have "\<lfloor>x\<rfloor> = 0 \<or> \<lfloor>x\<rfloor> = 1" by linarith
  moreover from a have "round x = 0 \<or> round x = 1" unfolding round_def by linarith
  ultimately show ?thesis
    using a by (auto simp: np_around_def)
qed

lemma list_all2_maps:
  "list_all2 R (map f xs) (map g xs) = list_all (\<lambda>x. R (f x) (g x)) xs"
  by (induction xs) simp_all

lemma list_all2_replicate: "R x y \<Longrightarrow> list_all2 R (replicate n x) (replicate n y)"
  by (induction n) simp_all

lemma latent_masks_binary:
  assumes "unit_range latmasks"
  shows "binary_masks (map (\<lambda>l. fst (latent_masks l)) latmasks)
           (map (\<lambda>l. snd (latent_masks l)) latmasks)"
  unfolding binary_masks_def entrywise_def list_all2_maps
proof (rule list_all_iff [THEN iffD2, rule_format])
  fix l assume "l \<in> set latmasks"
  with assms have u: "list_all (list_all (\<lambda>x. 0 \<le> x \<and> x \<le> 1)) l"
    by (simp add: unit_range_def list_all_iff)
  have "list_all2 (list_all2 (\<lambda>m n. m = Fin 0 \<and> n = Fin 1 \<or> m = Fin 1 \<and> n = Fin 0))
          (map (map (\<lambda>x. Fin (1 - x))) (map (map np_around) l))
          (map (map Fin) (map (map np_around) l))"
    using u np_around_unit
    by (auto simp: list_all2_conv_all_nth list_all_length)
  then show "list_all2 (list_all2 (list_all2 (\<lambda>m n. m = Fin 0 \<and> n = Fin 1 \<or> m = Fin 1 \<and> n = Fin 0)))
          (fst (latent_masks l)) (snd (latent_masks l))"
    by (simp add: latent_masks_def Let_def list_all2_replicate)
qed

text \<open>
  C6, as stated, fails for a sampled latent with an entry that is not finite: where
  \<open>mask\<close> is 1 and \<open>nmask\<close> is 0, a sampled NaN or infinity times 0 is NaN, and the
  recomposite has NaN there instead of the entry 7 of the init latent; applied again it
  gives NaN again, which \<open>==\<close> does not hold of.  An infinite entry of the init latent
  where \<open>mask\<close> is 0 gives NaN in the same way.
\<close>

theorem recomposite_nan_unmasked:
  "recomposite [[[[NaN]]]] [[[[Fin 0]]]] [[[[Fin 7]]]] [[[[Fin 1]]]] = [[[[NaN]]]]
   \<and> recomposite [[[[PosInf]]]] [[[[Fin 0]]]] [[[[Fin 7]]]] [[[[Fin 1]]]] = [[[[NaN]]]]
   \<and> recomposite [[[[NaN]]]] [[[[Fin 0]]]] [[[[Fin 7]]]] [[[[Fin 1]]]] ! 0 ! 0 ! 0 ! 0
       \<noteq> [[[[Fin 7]]]] ! 0 ! 0 ! 0 ! 0
   \<and> \<not> ieee_eq
         (recomposite (recomposite [[[[PosInf]]]] [[[[Fin 0]]]] [[[[Fin 7]]]] [[[[Fin 1]]]])
            [[[[Fin 0]]]] [[[[Fin 7]]]] [[[[Fin 1]]]] ! 0 ! 0 ! 0 ! 0)
         (recomposite [[[[PosInf]]]] [[[[Fin 0]]]] [[[[Fin 7]]]] [[[[Fin 1]]]] ! 0 ! 0 ! 0 ! 0)
   \<and> recomposite [[[[Fin 5]]]] [[[[Fin 1]]]] [[[[PosInf]]]] [[[[Fin 0]]]] = [[[[NaN]]]]"
  by (simp add: recomposite_def fb_add_def fb_mul_def inf_times_def)

text \<open>
  C6, amended.  For a sampled batch \<open>A\<close> and an init latent \<open>B\<close> of the shape of the
  masks whose entries are all finite, and masks with entries 0 or 1 and
  \<open>nmask = 1 - mask\<close>: the recomposite \<open>A * nmask + B * mask\<close> has, at every position
  where \<open>mask\<close> is 1 (outside the region being inpainted), exactly the entry of \<open>B\<close>; its
  entries are finite; and applying the recomposite to its own result changes nothing.
\<close>

theorem recomposite_unmasked_and_idempotent:
  assumes "finite_entries A msk" "finite_entries B msk" "binary_masks msk nmask"
  shows "(\<forall>b c i j. b < length msk \<and> c < length (msk ! b) \<and> i < length (msk ! b ! c)
              \<and> j < length (msk ! b ! c ! i) \<and> msk ! b ! c ! i ! j = Fin 1 \<longrightarrow>
            recomposite A nmask B msk ! b ! c ! i ! j = B ! b ! c ! i ! j)
       \<and> (\<forall>b c i j. b < length msk \<and> c < length (msk ! b) \<and> i < length (msk ! b ! c)
              \<and> j < length (msk ! b ! c ! i) \<longrightarrow>
            is_finite (recomposite A nmask B msk ! b ! c ! i ! j))
       \<and> recomposite (recomposite A nmask B msk) nmask B msk = recomposite A nmask B msk"
proof (intro conjI allI impI)
  fix b c i j
  assume h: "b < length msk \<and> c < length (msk ! b) \<and> i < length (msk ! b ! c)
              \<and> j < length (msk ! b ! c ! i) \<and> msk ! b ! c ! i ! j = Fin 1"
  with binary_masks_entry [OF assms(3), of b c i j] have n: "nmask ! b ! c ! i ! j = Fin 0"
    by auto
  from h entries_at [OF assms(1) [unfolded finite_entries_def]]
    entries_at [OF assms(2) [unfolded finite_entries_def]]
  have "is_finite (A ! b ! c ! i ! j)" "is_finite (B ! b ! c ! i ! j)"
    by simp_all
  then obtain x y where "A ! b ! c ! i ! j = Fin x" "B ! b ! c ! i ! j = Fin y"
    by (cases "A ! b ! c ! i ! j"; cases "B ! b ! c ! i ! j") auto
  with h n recomposite_entry [OF assms]
  show "recomposite A nmask B msk ! b ! c ! i ! j = B ! b ! c ! i ! j"
    by simp
next
  fix b c i j
  assume h: "b < length msk \<and> c < length (msk ! b) \<and> i < length (msk ! b ! c)
              \<and> j < length (msk ! b ! c ! i)"
  from h entries_at [OF assms(1) [unfolded finite_entries_def]]
    entries_at [OF assms(2) [unfolded finite_entries_def]]
  have "is_finite (A ! b ! c ! i ! j)" "is_finite (B ! b ! c ! i ! j)"
    by simp_all
  then obtain x y where xy: "A ! b ! c ! i ! j = Fin x" "B ! b ! c ! i ! j = Fin y"
    by (cases "A ! b ! c ! i ! j"; cases "B ! b ! c ! i ! j") auto
  from h binary_masks_entry [OF assms(3), of b c i j]
  have "msk ! b ! c ! i ! j = Fin 0 \<and> nmask ! b ! c ! i ! j = Fin 1
      \<or> msk ! b ! c ! i ! j = Fin 1 \<and> nmask ! b ! c ! i ! j = Fin 0"
    by simp
  with h xy recomposite_entry [OF assms]
  show "is_finite (recomposite A nmask B msk ! b ! c ! i ! j)"
    by auto
next
  show "recomposite (recomposite A nmask B msk) nmask B msk = recomposite A nmask B msk"
    using assms by (rule recomposite_idem)
qed

theorem recomposite_unmasked_and_idempotent_witness:
  "recomposite [replicate 4 [[Fin 5, Fin 6]]] [snd (latent_masks [[9 / 10, 1 / 5]])]
       [replicate 4 [[Fin 7, Fin 8]]] [fst (latent_masks [[9 / 10, 1 / 5]])]
     = [replicate 4 [[Fin 5, Fin 8]]]
   \<and> recomposite [replicate 4 [[Fin 5, Fin 8]]] [snd (latent_masks [[9 / 10, 1 / 5]])]
       [replicate 4 [[Fin 7, Fin 8]]] [fst (latent_masks [[9 / 10, 1 / 5]])]
     = [replicate 4 [[Fin 5, Fin 8]]]"
proof -
  let ?A = "[replicate 4 [[Fin 5, Fin 6]]] :: fbatch"
  let ?B = "[replicate 4 [[Fin 7, Fin 8]]] :: fbatch"
  let ?m = "[fst (latent_masks [[9 / 10, 1 / 5]])] :: fbatch"
  let ?n = "[snd (latent_masks [[9 / 10, 1 / 5]])] :: fbatch"
  have r: "np_around (9 / 10) = 1" "np_around (1 / 5) = 0"
    by (simp_all add: np_around_def round_def)
  have a: "finite_entries ?A ?m" and b: "finite_entries ?B ?m"
    by (simp_all add: finite_entries_def entrywise_def latent_masks_def Let_def numeral_eq_Suc)
  have "unit_range [[[9 / 10, 1 / 5]]]"
    by (simp add: unit_range_def)
  from latent_masks_binary [OF this] have c: "binary_masks ?m ?n"
    by simp
  have d: "recomposite ?A ?n ?B ?m = [replicate 4 [[Fin 5, Fin 8]]]"
    by (simp add: recomposite_def fb_add_def fb_mul_def latent_masks_def
                  Let_def r numeral_eq_Suc)
  from recomposite_unmasked_and_idempotent [OF a b c, THEN conjunct2, THEN conjunct2] d
  show ?thesis
    by simp
qed

subsection \<open>The two branches of \<open>slerp\<close>\<close>

lemmas slerp_defs =
  slerp_def normalise_def col_norms_def sum_dim1_def mean_def t_mul_def t_add_def t_scale_def
  unsqueeze_mul_def

text \<open>
  The branch of lines 202-205 weights \<open>low\<close> by \<open>sin((1 - val) * omega) / sin(omega)\<close>:
  for the orthogonal rows \<open>(1, 0)\<close> and \<open>(0, 1)\<close> it returns \<open>low\<close> at 0 and \<open>high\<close> at 1.
\<close>

lemma slerp_orthogonal_endpoints:
  "slerp 0 [[[1], [0]]] [[[0], [1]]] = [[[1], [0]]]
   \<and> slerp 1 [[[1], [0]]] [[[0], [1]]] = [[[0], [1]]]"
  by (simp add: slerp_defs Let_def)

text \<open>
  The branch of line 200 is the linear combination \<open>low * val + high * (1 - val)\<close>, which
  weights \<open>low\<close> by \<open>val\<close>.
\<close>

lemma slerp_near_parallel_branch:
  "mean (sum_dim1 (t_mul (normalise low) (normalise high))) > 0.9995 \<Longrightarrow>
     slerp val low high = t_add (t_scale low val) (t_scale high (1 - val))"
  by (simp add: slerp_def Let_def)

text \<open>
  C1 on the code.  For the parallel inputs \<open>low = (1, 0)\<close> and \<open>high = (2, 0)\<close> (cosine
  similarity 1), \<open>slerp\<close> returns \<open>high\<close> at weight 0 and \<open>low\<close> at weight 1: the two
  end points are exchanged, and neither \<open>slerp(0, low, high) = low\<close> nor
  \<open>slerp(1, low, high) = high\<close> holds.
\<close>

theorem slerp_parallel_endpoints_exchanged:
  "slerp 0 [[[1], [0]]] [[[2], [0]]] = [[[2], [0]]]
   \<and> slerp 1 [[[1], [0]]] [[[2], [0]]] = [[[1], [0]]]
   \<and> slerp 0 [[[1], [0]]] [[[2], [0]]] \<noteq> [[[1], [0]]]
   \<and> slerp 1 [[[1], [0]]] [[[2], [0]]] \<noteq> [[[2], [0]]]"
  by (simp add: slerp_defs Let_def)

subsection \<open>The noise generator and the state of the random number generator\<close>

lemma noise_of_seed_reseeds:
  "noise_of_seed T eta wsn cnt shape subseeds strength h w i sd g
     = noise_of_seed T eta wsn cnt shape subseeds strength h w i sd g'"
proof -
  have "blended_noise T ns subseeds strength i sd g = blended_noise T ns subseeds strength i sd g'"
    for ns
    by (cases subseeds) (simp_all add: blended_noise_def devices_randn_def)
  then show ?thesis
    by (simp add: noise_of_seed_def split: sum.splits)
qed

lemma seeds_loop_first:
  assumes "\<And>i sd g g'. body i sd g = body i sd g'"
  shows "seeds_loop body i (sd # sds) xs sn g = seeds_loop body i (sd # sds) xs sn g'"
  using assms [of i sd g g'] by simp

lemma stack_all_error: "stack_all ns = Inl e \<Longrightarrow> e = RuntimeError"
  by (induction ns arbitrary: e) (auto simp: stack_def split: if_splits sum.splits)

lemma create_random_tensors_no_seeds:
  "create_random_tensors T opts shape [] subseeds strength h w g = Inl RuntimeError"
  by (auto simp: create_random_tensors_def Let_def stack_def dest: stack_all_error
           split: sum.splits option.splits)

lemma create_random_tensors_any_state:
  "create_random_tensors T opts shape seeds subseeds strength h w g
     = create_random_tensors T opts shape seeds subseeds strength h w g'"
proof (cases seeds)
  case Nil
  then show ?thesis by (simp add: create_random_tensors_no_seeds)
next
  case (Cons sd sds)
  show ?thesis
    unfolding create_random_tensors_def Let_def Cons
    by (subst seeds_loop_first [where g' = g']) (rule noise_of_seed_reseeds, rule refl)
qed

lemma blended_noise_reseeds:
  "blended_noise T ns subseeds strength i sd g = blended_noise T ns subseeds strength i sd g'"
  by (cases subseeds) (simp_all add: blended_noise_def devices_randn_def)

lemma resized_noise_tensor:
  "map_sum id fst (resized_noise T shape ns sd x g) = map_sum id fst (resized_noise T shape ns sd x g')"
  by (simp add: resized_noise_def devices_randn_def Let_def split: sum.splits prod.splits)

lemma noise_of_seed_tensor:
  "map_sum id fst (noise_of_seed T eta wsn cnt shape subseeds strength h w i sd g)
     = map_sum id fst (noise_of_seed T eta' wsn' cnt' shape subseeds strength h w i sd g')"
proof (cases "noise_shape_of shape h w")
  case (Inl e)
  then show ?thesis by (simp add: noise_of_seed_def)
next
  case (Inr ns)
  obtain x g1 where b: "blended_noise T ns subseeds strength i sd g = (x, g1)"
    by (cases "blended_noise T ns subseeds strength i sd g")
  with blended_noise_reseeds [of T ns subseeds strength i sd g g']
  have b': "blended_noise T ns subseeds strength i sd g' = (x, g1)" by simp
  show ?thesis
    by (simp add: noise_of_seed_def Inr b b' split: sum.splits prod.splits)
qed

lemma seeds_loop_tensors:
  assumes "\<And>i sd g g'. map_sum id fst (body i sd g) = map_sum id fst (body' i sd g')"
  shows "map_sum id fst (seeds_loop body i sds xs sn g)
           = map_sum id fst (seeds_loop body' i sds xs sn' g')"
proof (induction sds arbitrary: i xs sn sn' g g')
  case Nil
  then show ?case by simp
next
  case (Cons sd sds)
  show ?case
  proof (cases "body i sd g")
    case (Inl e)
    with assms [of i sd g g'] show ?thesis
      by (cases "body' i sd g'") auto
  next
    case (Inr r)
    obtain x ts g1 where r: "r = (x, ts, g1)" by (cases r)
    from assms [of i sd g g'] Inr r obtain ts' g1' where "body' i sd g' = Inr (x, ts', g1')"
      by (cases "body' i sd g'") auto
    with Inr r Cons.IH show ?thesis by simp
  qed
qed

lemma seeds_loop_nonempty:
  "seeds_loop body i sds xs sn g = Inr (xs', sn', g') \<Longrightarrow>
   sds \<noteq> [] \<or> (\<forall>l \<in> set sn. l \<noteq> []) \<Longrightarrow> \<forall>l \<in> set sn'. l \<noteq> []"
proof (induction sds arbitrary: i xs sn g)
  case Nil
  then show ?case by simp
next
  case (Cons sd sds)
  from Cons.prems(1) obtain x ts g1 where
    rest: "seeds_loop body (Suc i) sds (xs @ [x]) (map2 (\<lambda>l t. l @ [t]) sn ts) g1 = Inr (xs', sn', g')"
    by (auto split: sum.splits)
  have "\<forall>l \<in> set (map2 (\<lambda>l t. l @ [t]) sn ts). l \<noteq> []"
    by auto
  with Cons.IH [OF rest] show ?case by simp
qed

lemma stack_all_nonempty: "\<forall>l \<in> set ns. l \<noteq> [] \<Longrightarrow> stack_all ns = Inr ns"
  by (induction ns) (simp_all add: stack_def)

lemma create_random_tensors_batch:
  assumes "seeds \<noteq> []"
  shows "map_sum id fst (create_random_tensors T opts shape seeds subseeds strength h w g)
     = (case map_sum id fst
               (seeds_loop
                  (noise_of_seed T
                     (case eta_noise_seed_delta opts of None \<Rightarrow> 0 | Some d \<Rightarrow> d)
                     (needed_noises opts \<noteq> None
                      \<and> (length seeds > 1 \<and> enable_batch_seeds opts
                          \<or> (case eta_noise_seed_delta opts of None \<Rightarrow> 0 | Some d \<Rightarrow> d) > 0))
                     (case needed_noises opts of None \<Rightarrow> 0 | Some n \<Rightarrow> n)
                     shape subseeds strength h w)
                  0 seeds []
                  (if needed_noises opts \<noteq> None
                      \<and> (length seeds > 1 \<and> enable_batch_seeds opts
                          \<or> (case eta_noise_seed_delta opts of None \<Rightarrow> 0 | Some d \<Rightarrow> d) > 0)
                   then replicate (case needed_noises opts of None \<Rightarrow> 0 | Some n \<Rightarrow> n) []
                   else []) g) of
          Inl e \<Rightarrow> Inl e
        | Inr xs \<Rightarrow> stack xs)"
    (is "_ = (case map_sum id fst ?L of Inl e \<Rightarrow> Inl e | Inr xs \<Rightarrow> stack xs)")
proof (cases ?L)
  case (Inl e)
  then show ?thesis
    by (simp add: create_random_tensors_def Let_def)
next
  case (Inr r)
  obtain xs sn g1 where r: "r = (xs, sn, g1)" by (cases r)
  from seeds_loop_nonempty [OF Inr [unfolded r]] assms have "\<forall>l \<in> set sn. l \<noteq> []"
    by simp
  then have st: "stack_all sn = Inr sn"
    by (rule stack_all_nonempty)
  from Inr r st show ?thesis
    by (cases "stack xs") (simp_all add: create_random_tensors_def Let_def)
qed

text \<open>
  C3.  The result of \<open>create_random_tensors\<close> (the returned batch, the sampler noises
  it stores and the state it leaves the generator in, or the error it raises) is the
  same for every state of the random number generator at the call: with the same shape,
  seeds, subseeds, strength, resize parameters and options, two calls return the same
  tensors, whatever was drawn between them.  The returned batch, moreover, is the same
  whatever the options and the sampler of \<open>p\<close> are.
\<close>

theorem create_random_tensors_deterministic:
  "create_random_tensors T opts shape seeds subseeds strength h w g
     = create_random_tensors T opts shape seeds subseeds strength h w g'
   \<and> map_sum id fst (create_random_tensors T opts shape seeds subseeds strength h w g)
     = map_sum id fst (create_random_tensors T opts' shape seeds subseeds strength h w g')"
proof
  show "map_sum id fst (create_random_tensors T opts shape seeds subseeds strength h w g)
     = map_sum id fst (create_random_tensors T opts' shape seeds subseeds strength h w g')"
  proof (cases seeds)
    case Nil
    then show ?thesis by (simp add: create_random_tensors_no_seeds)
  next
    case (Cons sd sds)
    then have ne: "seeds \<noteq> []" by simp
    show ?thesis
      unfolding create_random_tensors_batch [OF ne]
      by (subst seeds_loop_tensors [OF noise_of_seed_tensor]) (rule refl)
  qed
qed (rule create_random_tensors_any_state)

theorem create_random_tensors_deterministic_witness:
  "create_random_tensors
      \<lparr>manual_seed = (\<lambda>s. nat s), randn = (\<lambda>shape g. ([[[real g]]], Suc g)),
       assign_region = (\<lambda>x r n d. Inr x)\<rparr>
      \<lparr>eta_noise_seed_delta = None, enable_batch_seeds = True, needed_noises = Some 2\<rparr>
      (PyList [1, 1, 1]) [100, 101] None 0 0 0 5
    = Inr ([[[[100]]], [[[101]]]],
           Some [[[[[101]]], [[[102]]]], [[[[102]]], [[[103]]]]], 104)
   \<and> create_random_tensors
      \<lparr>manual_seed = (\<lambda>s. nat s), randn = (\<lambda>shape g. ([[[real g]]], Suc g)),
       assign_region = (\<lambda>x r n d. Inr x)\<rparr>
      \<lparr>eta_noise_seed_delta = None, enable_batch_seeds = True, needed_noises = Some 2\<rparr>
      (PyList [1, 1, 1]) [100, 101] None 0 0 0 77
    = Inr ([[[[100]]], [[[101]]]],
           Some [[[[[101]]], [[[102]]]], [[[[102]]], [[[103]]]]], 104)"
proof -
  let ?T = "\<lparr>manual_seed = (\<lambda>s. nat s), randn = (\<lambda>shape g. ([[[real g]]], Suc g)),
       assign_region = (\<lambda>x r n d. Inr x)\<rparr>"
  let ?opts = "\<lparr>eta_noise_seed_delta = None, enable_batch_seeds = True,
       needed_noises = Some 2\<rparr>"
  have a: "create_random_tensors ?T ?opts (PyList [1, 1, 1]) [100, 101] None 0 0 0 5
             = Inr ([[[[100]]], [[[101]]]],
                    Some [[[[[101]]], [[[102]]]], [[[[102]]], [[[103]]]]], 104)"
    by (simp add: create_random_tensors_def noise_of_seed_def noise_shape_of_def
                  blended_noise_def resized_noise_def sampler_draws_def devices_randn_def
                  devices_randn_without_seed_def Let_def stack_def numeral_2_eq_2)
  from create_random_tensors_deterministic
         [of ?T ?opts "PyList [1, 1, 1]" "[100, 101]" None 0 0 0 5 77, THEN conjunct1] a
  show ?thesis by simp
qed

subsection \<open>The grid\<close>







subsection \<open>Interruption of the loop\<close>













end
